theory Spec2Isabelle
  imports Main "HOL-Library.Word"
begin

unbundle bit_operations_syntax

section \<open>The literal matcher build stage: data model\<close>

text \<open>
  The embedding follows \<^verbatim>\<open>src/hwlm/hwlm_build.cpp\<close>. The C++ integer types are
  words of their width; \<^verbatim>\<open>size_t\<close> is taken at 64 bits (the x86-64 build).
  Lengths of containers (\<^verbatim>\<open>lits.size()\<close>, \<^verbatim>\<open>lit.s.length()\<close>, the byte count of an
  engine payload) are the exact lengths of the lists that model them, so they are
  compared as natural numbers; every sum the code computes on them is a word
  addition and wraps as the machine addition does.
\<close>

type_synonym u8 = "8 word"
type_synonym u32 = "32 word"
type_synonym u64a = "64 word"
type_synonym size_t = "64 word"
type_synonym hwlm_group_t = "64 word"

text \<open>
  \<^verbatim>\<open>struct hwlmLiteral\<close>: the fields the build code reads. The field names carry
  the prefix \<open>lit_\<close> because \<open>id\<close> is a constant of HOL.
\<close>

record hwlmLiteral =
  lit_s :: string
  lit_id :: u32
  lit_nocase :: bool
  lit_groups :: hwlm_group_t
  lit_msk :: "u8 list"
  lit_cmp :: "u8 list"

text \<open>
  \<^verbatim>\<open>struct Grey\<close>: the flags and the four ceilings the build code reads (the
  ceilings are 32-bit unsigned fields), \<^verbatim>\<open>target_t\<close> with its capability query, and
  the \<^verbatim>\<open>CompileContext\<close> that holds both.
\<close>

record Grey =
  allowNoodle :: bool
  fdrAllowTeddy :: bool
  limitLiteralCount :: u32
  limitLiteralLength :: u32
  limitLiteralMatcherChars :: u32
  limitLiteralMatcherSize :: u32

record target_t =
  has_avx2 :: bool

record CompileContext =
  grey :: Grey
  target_info :: target_t

text \<open>
  The compiled artifact. \<open>HWLM\<close> is what a \<^verbatim>\<open>const HWLM *\<close> gives access to: the tag in
  the header and the engine payload behind the aligned header (\<^verbatim>\<open>HWLM_DATA\<close>). The
  owning \<^verbatim>\<open>bytecode_ptr<HWLM>\<close> also records the number of bytes it was allocated
  with.
\<close>

record HWLM =
  hwlm_type :: u8
  hwlm_data :: "u8 list"

record HWLM_bytecode_ptr =
  ptr_get :: HWLM
  ptr_size :: size_t

text \<open>
  The ways a call can end other than by returning: the two exceptions the code
  throws, and a failed \<^verbatim>\<open>assert\<close>, which aborts a build with assertions compiled in.
\<close>

datatype error = ResourceLimitError | CompileError string | AssertionFailure

text \<open>
  The observable effects of a build call, in the order they happen: a call of one
  of the two engine builders, and the allocation of the blob with its byte count.
\<close>

datatype event = Call_noodBuildTable | Call_fdrBuildTable | Alloc_HWLM size_t

fun is_builder_call :: "event \<Rightarrow> bool" where
  "is_builder_call Call_noodBuildTable = True"
| "is_builder_call Call_fdrBuildTable = True"
| "is_builder_call (Alloc_HWLM n) = False"

fun is_allocation :: "event \<Rightarrow> bool" where
  "is_allocation (Alloc_HWLM n) = True"
| "is_allocation Call_noodBuildTable = False"
| "is_allocation Call_fdrBuildTable = False"

subsection \<open>Constants declared outside the file\<close>

text \<open>
  Modelled from the spec: the two engine tags of \<^verbatim>\<open>hwlm_internal.h\<close>, which is not
  among the sources. The spec only says that exactly two tag values are recognised;
  the theorems use nothing but their being different.
\<close>

definition HWLM_ENGINE_NOOD :: u8 where
  "HWLM_ENGINE_NOOD = 16"

definition HWLM_ENGINE_FDR :: u8 where
  "HWLM_ENGINE_FDR = 12"

text \<open>
  Modelled from the spec: the macro \<^verbatim>\<open>ROUNDUP_CL\<close> of \<^verbatim>\<open>ue2common.h\<close>, which is not
  among the sources: rounding up to the next multiple of the cache line, 64 bytes
  (the alignment the build passes to the allocation). \<^verbatim>\<open>sizeof(HWLM)\<close> is a
  parameter \<open>sizeof_HWLM\<close> of the functions that use it.
\<close>

definition ROUNDUP_CL :: "size_t \<Rightarrow> size_t" where
  "ROUNDUP_CL a = (a + 63) AND NOT 63"

section \<open>The build code\<close>

subsection \<open>everyoneHasGroups and isNoodleable\<close>

fun everyoneHasGroups :: "hwlmLiteral list \<Rightarrow> bool" where
  "everyoneHasGroups [] = True"
| "everyoneHasGroups (lit # lits) =
     (if lit_groups lit = 0 then False else everyoneHasGroups lits)"

definition isNoodleable :: "hwlmLiteral list \<Rightarrow> CompileContext \<Rightarrow> bool" where
  "isNoodleable lits cc =
     (if \<not> allowNoodle (grey cc) then False
      else if length lits \<noteq> 1 then False
      else if lit_msk (hd lits) \<noteq> [] then False
      else True)"

subsection \<open>hwlmBuild\<close>

text \<open>
  The loop over the literals (the safety and resource limit checks), with the
  running \<^verbatim>\<open>total_chars\<close> as an argument. \<open>ndebug\<close> says whether the build has
  assertions compiled out. The result is the first failure, or \<open>None\<close> when the
  loop runs to its end.
\<close>

fun hwlmBuild_loop :: "bool \<Rightarrow> Grey \<Rightarrow> u64a \<Rightarrow> hwlmLiteral list \<Rightarrow> error option" where
  "hwlmBuild_loop ndebug g total_chars [] = None"
| "hwlmBuild_loop ndebug g total_chars (lit # lits) =
     (if \<not> ndebug \<and> lit_s lit = [] then Some AssertionFailure
      else if unat (limitLiteralLength g) < length (lit_s lit) then Some ResourceLimitError
      else if unat (limitLiteralMatcherChars g)
                < unat (total_chars + of_nat (length (lit_s lit)))
        then Some ResourceLimitError
      else if lit_id lit = 0xffffffff
        then (if \<not> ndebug then Some AssertionFailure
              else Some (CompileError ''Internal error.''))
      else hwlmBuild_loop ndebug g (total_chars + of_nat (length (lit_s lit))) lits)"

text \<open>
  Everything \<^verbatim>\<open>hwlmBuild\<close> does before it chooses an engine: the assertion on the
  batch, the literal count, the loop, and the assertion on the groups.
\<close>

definition hwlmBuild_checks :: "bool \<Rightarrow> CompileContext \<Rightarrow> hwlmLiteral list \<Rightarrow> error option" where
  "hwlmBuild_checks ndebug cc lits =
     (if \<not> ndebug \<and> lits = [] then Some AssertionFailure
      else if unat (limitLiteralCount (grey cc)) < length lits then Some ResourceLimitError
      else case hwlmBuild_loop ndebug (grey cc) 0 lits of
        Some e \<Rightarrow> Some e
      | None \<Rightarrow>
          if \<not> ndebug \<and> \<not> everyoneHasGroups lits then Some AssertionFailure
          else None)"

text \<open>
  The engine builders are parameters: \<open>noodBuildTable\<close> and \<open>fdrBuildTable\<close> return
  the payload bytes, or \<open>None\<close> for a null pointer. \<open>hwlmBuild_engine\<close> is the branch
  on \<^verbatim>\<open>isNoodleable\<close>: the call made, the tag, and what the builder returned.
\<close>

type_synonym noodBuildTable_t = "hwlmLiteral \<Rightarrow> u8 list option"
type_synonym fdrBuildTable_t =
  "hwlmLiteral list \<Rightarrow> bool \<Rightarrow> target_t \<Rightarrow> Grey \<Rightarrow> u8 list option"

definition hwlmBuild_engine ::
  "noodBuildTable_t \<Rightarrow> fdrBuildTable_t \<Rightarrow> hwlmLiteral list \<Rightarrow> bool \<Rightarrow> CompileContext
     \<Rightarrow> event \<times> u8 \<times> u8 list option" where
  "hwlmBuild_engine noodBuildTable fdrBuildTable lits make_small cc =
     (if isNoodleable lits cc
      then (Call_noodBuildTable, HWLM_ENGINE_NOOD, noodBuildTable (hd lits))
      else (Call_fdrBuildTable, HWLM_ENGINE_FDR,
            fdrBuildTable lits make_small (target_info cc) (grey cc)))"

text \<open>
  The build call. It returns the effects made and either the error the call ended
  with or the returned pointer (\<open>None\<close> is \<^verbatim>\<open>nullptr\<close>). \<^verbatim>\<open>engSize\<close> is the byte
  count of the payload the builder returned; \<^verbatim>\<open>assert(engSize)\<close> is checked only in a
  build with assertions; the blob is allocated with the rounded header size plus
  \<^verbatim>\<open>engSize\<close> bytes, its tag is set and the payload is copied behind the header.
\<close>

definition hwlmBuild ::
  "bool \<Rightarrow> noodBuildTable_t \<Rightarrow> fdrBuildTable_t \<Rightarrow> size_t
     \<Rightarrow> hwlmLiteral list \<Rightarrow> bool \<Rightarrow> CompileContext \<Rightarrow> hwlm_group_t
     \<Rightarrow> event list \<times> (error + HWLM_bytecode_ptr option)" where
  "hwlmBuild ndebug noodBuildTable fdrBuildTable sizeof_HWLM
       lits make_small cc expected_groups =
     (case hwlmBuild_checks ndebug cc lits of
        Some e \<Rightarrow> ([], Inl e)
      | None \<Rightarrow>
         (case hwlmBuild_engine noodBuildTable fdrBuildTable lits make_small cc of
            (call, engType, eng) \<Rightarrow>
              (case eng of
                 None \<Rightarrow> ([call], Inr None)
               | Some payload \<Rightarrow>
                   if \<not> ndebug \<and> length payload = 0 then ([call], Inl AssertionFailure)
                   else if unat (limitLiteralMatcherSize (grey cc)) < length payload
                     then ([call], Inl ResourceLimitError)
                   else
                     ([call, Alloc_HWLM (ROUNDUP_CL sizeof_HWLM + of_nat (length payload))],
                      Inr (Some \<lparr> ptr_get = \<lparr> hwlm_type = engType, hwlm_data = payload \<rparr>,
                                  ptr_size = ROUNDUP_CL sizeof_HWLM + of_nat (length payload) \<rparr>)))))"

subsection \<open>hwlmSize\<close>

text \<open>
  The size functions of the two engines are parameters: each reads the payload
  region of the blob and reports a \<^verbatim>\<open>size_t\<close>.
\<close>

definition hwlmSize ::
  "(u8 list \<Rightarrow> size_t) \<Rightarrow> (u8 list \<Rightarrow> size_t) \<Rightarrow> size_t \<Rightarrow> HWLM \<Rightarrow> size_t" where
  "hwlmSize noodSize fdrSize sizeof_HWLM h =
     (let engSize =
            (if hwlm_type h = HWLM_ENGINE_NOOD then noodSize (hwlm_data h)
             else if hwlm_type h = HWLM_ENGINE_FDR then fdrSize (hwlm_data h)
             else 0)
      in if engSize = 0 then 0 else engSize + ROUNDUP_CL sizeof_HWLM)"

subsection \<open>hwlmFloodProneSuffixLen\<close>

definition hwlmFloodProneSuffixLen :: "size_t \<Rightarrow> CompileContext \<Rightarrow> size_t" where
  "hwlmFloodProneSuffixLen numLiterals cc =
     (let NO_LIMIT = NOT 0 in
      if allowNoodle (grey cc) \<and> numLiterals \<le> 1 then NO_LIMIT
      else if fdrAllowTeddy (grey cc)
        then (if numLiterals \<le> 48 then 3
              else if has_avx2 (target_info cc) \<and> numLiterals \<le> 96 then 3
              else 3)
      else 3)"

section \<open>Concrete inputs\<close>

text \<open>
  Inputs on which the theorems below are evaluated: a literal with a pattern and an
  id (no supplementary mask, one group), a configuration with small ceilings
  (at most 3 literals, 3 characters a literal, 5 characters in all, 4 bytes of
  payload), builders that return a fixed result, and size functions that report
  the byte count of the payload or a fixed value.
\<close>

definition example_lit :: "string \<Rightarrow> u32 \<Rightarrow> hwlmLiteral" where
  "example_lit pat i =
     \<lparr> lit_s = pat, lit_id = i, lit_nocase = False, lit_groups = 1,
       lit_msk = [], lit_cmp = [] \<rparr>"

definition example_cc :: CompileContext where
  "example_cc =
     \<lparr> grey = \<lparr> allowNoodle = True, fdrAllowTeddy = True, limitLiteralCount = 3,
                limitLiteralLength = 3, limitLiteralMatcherChars = 5,
                limitLiteralMatcherSize = 4 \<rparr>,
       target_info = \<lparr> has_avx2 = False \<rparr> \<rparr>"

definition const_noodBuildTable :: "u8 list option \<Rightarrow> noodBuildTable_t" where
  "const_noodBuildTable r lit = r"

definition const_fdrBuildTable :: "u8 list option \<Rightarrow> fdrBuildTable_t" where
  "const_fdrBuildTable r lits make_small target g = r"

definition byte_count :: "u8 list \<Rightarrow> size_t" where
  "byte_count payload = of_nat (length payload)"

definition const_size :: "size_t \<Rightarrow> u8 list \<Rightarrow> size_t" where
  "const_size n payload = n"

section \<open>Auxiliary facts\<close>

text \<open>
  Names for the unfolding of the concrete inputs and of the build call.
\<close>

lemmas example_defs = example_lit_def example_cc_def const_noodBuildTable_def
  const_fdrBuildTable_def byte_count_def const_size_def

lemmas build_defs = hwlmBuild_def hwlmBuild_checks_def hwlmBuild_engine_def isNoodleable_def

text \<open>
  The running total never wraps while the loop goes on: it is at most the
  character budget, a 32-bit value, and the length added to it has passed the
  per-literal ceiling, another 32-bit value.
\<close>

lemma total_chars_step:
  assumes "unat (t :: u64a) \<le> unat (limitLiteralMatcherChars g)"
    and "n \<le> unat (limitLiteralLength g)"
  shows "unat (t + of_nat n) = unat t + n"
proof -
  have c: "unat (limitLiteralMatcherChars g) < 2 ^ 32"
    using unsigned_less [of "limitLiteralMatcherChars g"] by simp
  have l: "unat (limitLiteralLength g) < 2 ^ 32"
    using unsigned_less [of "limitLiteralLength g"] by simp
  have n: "unat (of_nat n :: u64a) = n"
    using assms(2) l by (simp add: unat_of_nat)
  have "unat t + unat (of_nat n :: u64a) < 2 ^ LENGTH(64)"
    using assms c l n by simp
  then have "unat (t + of_nat n) = unat t + unat (of_nat n :: u64a)"
    by (simp only: unat_add_lem)
  then show ?thesis using n by simp
qed

lemma everyoneHasGroups_iff:
  "everyoneHasGroups lits \<longleftrightarrow> (\<forall>x\<in>set lits. lit_groups x \<noteq> 0)"
  by (induction lits) auto

text \<open>
  Three facts about the loop, each by induction on the literals before the one that
  decides, with the running total generalised: it runs to its end on a batch within
  the limits; it stops with the resource limit error at the first literal that is
  too long or takes the total over the budget; it stops at a reserved id that is
  reached within the limits.
\<close>

lemma hwlmBuild_loop_pass:
  assumes "unat t + sum_list (map (\<lambda>y. length (lit_s y)) lits) \<le> unat (limitLiteralMatcherChars g)"
    and "\<forall>x\<in>set lits. length (lit_s x) \<le> unat (limitLiteralLength g)"
    and "\<forall>x\<in>set lits. lit_id x \<noteq> 0xffffffff"
    and "ndebug \<or> (\<forall>x\<in>set lits. lit_s x \<noteq> [])"
  shows "hwlmBuild_loop ndebug g t lits = None"
  using assms
proof (induction lits arbitrary: t)
  case Nil
  show ?case by simp
next
  case (Cons x xs)
  have len: "length (lit_s x) \<le> unat (limitLiteralLength g)"
    using Cons.prems(2) by simp
  have t: "unat t \<le> unat (limitLiteralMatcherChars g)"
    using Cons.prems(1) by simp
  have step: "unat (t + of_nat (length (lit_s x))) = unat t + length (lit_s x)"
    using total_chars_step [OF t len] .
  have rest: "hwlmBuild_loop ndebug g (t + of_nat (length (lit_s x))) xs = None"
  proof (rule Cons.IH)
    show "unat (t + of_nat (length (lit_s x))) + sum_list (map (\<lambda>y. length (lit_s y)) xs)
            \<le> unat (limitLiteralMatcherChars g)"
      using Cons.prems(1) step by simp
  qed (use Cons.prems in auto)
  have budget: "\<not> unat (limitLiteralMatcherChars g) < unat (t + of_nat (length (lit_s x)))"
    using Cons.prems(1) step by simp
  show ?case
    using len budget rest Cons.prems(3,4) by auto
qed

lemma hwlmBuild_loop_resource:
  assumes "unat t \<le> unat (limitLiteralMatcherChars g)"
    and "\<forall>x\<in>set pre. lit_id x \<noteq> 0xffffffff \<and> (ndebug \<or> lit_s x \<noteq> [])"
    and "unat (limitLiteralLength g) < length (lit_s l)
         \<or> unat (limitLiteralMatcherChars g)
             < unat t + sum_list (map (\<lambda>y. length (lit_s y)) (pre @ [l]))"
  shows "hwlmBuild_loop ndebug g t (pre @ l # post) = Some ResourceLimitError"
  using assms
proof (induction pre arbitrary: t)
  case Nil
  show ?case
  proof (cases "unat (limitLiteralLength g) < length (lit_s l)")
    case True
    then show ?thesis by auto
  next
    case False
    then have len: "length (lit_s l) \<le> unat (limitLiteralLength g)" by simp
    have step: "unat (t + of_nat (length (lit_s l))) = unat t + length (lit_s l)"
      using total_chars_step [OF Nil.prems(1) len] .
    have over: "unat (limitLiteralMatcherChars g) < unat t + length (lit_s l)"
      using Nil.prems(3) False by simp
    then have "lit_s l \<noteq> []"
      using Nil.prems(1) by auto
    then show ?thesis
      using False step over by simp
  qed
next
  case (Cons x xs)
  show ?case
  proof (cases "unat (limitLiteralLength g) < length (lit_s x)")
    case True
    then show ?thesis using Cons.prems(2) by auto
  next
    case False
    then have len: "length (lit_s x) \<le> unat (limitLiteralLength g)" by simp
    have step: "unat (t + of_nat (length (lit_s x))) = unat t + length (lit_s x)"
      using total_chars_step [OF Cons.prems(1) len] .
    show ?thesis
    proof (cases "unat (limitLiteralMatcherChars g) < unat t + length (lit_s x)")
      case True
      then show ?thesis using False step Cons.prems(2) by auto
    next
      case within: False
      have "hwlmBuild_loop ndebug g (t + of_nat (length (lit_s x))) (xs @ l # post)
              = Some ResourceLimitError"
      proof (rule Cons.IH)
        show "unat (t + of_nat (length (lit_s x))) \<le> unat (limitLiteralMatcherChars g)"
          using within step by simp
        show "\<forall>x\<in>set xs. lit_id x \<noteq> 0xffffffff \<and> (ndebug \<or> lit_s x \<noteq> [])"
          using Cons.prems(2) by simp
        show "unat (limitLiteralLength g) < length (lit_s l)
              \<or> unat (limitLiteralMatcherChars g)
                  < unat (t + of_nat (length (lit_s x)))
                    + sum_list (map (\<lambda>y. length (lit_s y)) (xs @ [l]))"
          using Cons.prems(3) step by (simp add: add.assoc)
      qed
      then show ?thesis
        using False within step Cons.prems(2) by auto
    qed
  qed
qed

lemma hwlmBuild_loop_reserved:
  assumes "unat t + sum_list (map (\<lambda>y. length (lit_s y)) (pre @ [l]))
             \<le> unat (limitLiteralMatcherChars g)"
    and "\<forall>x\<in>set (pre @ [l]). length (lit_s x) \<le> unat (limitLiteralLength g)"
    and "\<forall>x\<in>set pre. lit_id x \<noteq> 0xffffffff"
    and "lit_id l = 0xffffffff"
  shows "hwlmBuild_loop ndebug g t (pre @ l # post)
           = Some (if ndebug then CompileError ''Internal error.'' else AssertionFailure)"
  using assms
proof (induction pre arbitrary: t)
  case Nil
  have len: "length (lit_s l) \<le> unat (limitLiteralLength g)"
    using Nil.prems(2) by simp
  have t: "unat t \<le> unat (limitLiteralMatcherChars g)"
    using Nil.prems(1) by simp
  have step: "unat (t + of_nat (length (lit_s l))) = unat t + length (lit_s l)"
    using total_chars_step [OF t len] .
  show ?case
    using len step Nil.prems(1,4) by auto
next
  case (Cons x xs)
  have len: "length (lit_s x) \<le> unat (limitLiteralLength g)"
    using Cons.prems(2) by simp
  have t: "unat t \<le> unat (limitLiteralMatcherChars g)"
    using Cons.prems(1) by simp
  have step: "unat (t + of_nat (length (lit_s x))) = unat t + length (lit_s x)"
    using total_chars_step [OF t len] .
  have rest: "hwlmBuild_loop ndebug g (t + of_nat (length (lit_s x))) (xs @ l # post)
           = Some (if ndebug then CompileError ''Internal error.'' else AssertionFailure)"
  proof (rule Cons.IH)
    show "unat (t + of_nat (length (lit_s x))) + sum_list (map (\<lambda>y. length (lit_s y)) (xs @ [l]))
            \<le> unat (limitLiteralMatcherChars g)"
      using Cons.prems(1) step by simp
  qed (use Cons.prems in auto)
  have budget: "\<not> unat (limitLiteralMatcherChars g) < unat (t + of_nat (length (lit_s x)))"
    using Cons.prems(1) step by simp
  show ?case
    using len budget rest Cons.prems(3) by auto
qed

text \<open>
  The branch on \<^verbatim>\<open>isNoodleable\<close>, and the shape of a call that returns a blob.
\<close>

lemma HWLM_ENGINE_distinct: "HWLM_ENGINE_NOOD \<noteq> HWLM_ENGINE_FDR"
  by (simp add: HWLM_ENGINE_NOOD_def HWLM_ENGINE_FDR_def)

lemma hwlmBuild_engine_call:
  "fst (hwlmBuild_engine noodBuildTable fdrBuildTable lits make_small cc)
     = (if isNoodleable lits cc then Call_noodBuildTable else Call_fdrBuildTable)"
  by (simp add: hwlmBuild_engine_def)

lemma hwlmBuild_engine_tag:
  assumes "hwlmBuild_engine noodBuildTable fdrBuildTable lits make_small cc
             = (call, engType, eng)"
  shows "engType = (if isNoodleable lits cc then HWLM_ENGINE_NOOD else HWLM_ENGINE_FDR)"
  using assms by (auto simp: hwlmBuild_engine_def split: if_splits)

lemma hwlmBuild_events_passed:
  assumes "hwlmBuild_checks ndebug cc lits = None"
  shows "filter is_builder_call
           (fst (hwlmBuild ndebug noodBuildTable fdrBuildTable sizeof_HWLM
                   lits make_small cc expected_groups))
         = [fst (hwlmBuild_engine noodBuildTable fdrBuildTable lits make_small cc)]"
proof (cases "hwlmBuild_engine noodBuildTable fdrBuildTable lits make_small cc")
  case (fields call engType eng)
  then have "call = Call_noodBuildTable \<or> call = Call_fdrBuildTable"
    by (auto simp: hwlmBuild_engine_def split: if_splits)
  then have "is_builder_call call" by auto
  then show ?thesis
    using assms fields by (simp add: hwlmBuild_def split: option.split)
qed

lemma hwlmBuild_returned:
  assumes "hwlmBuild ndebug noodBuildTable fdrBuildTable sizeof_HWLM
             lits make_small cc expected_groups = (events, Inr (Some h))"
  shows "\<exists>call engType payload.
           hwlmBuild_engine noodBuildTable fdrBuildTable lits make_small cc
             = (call, engType, Some payload)
         \<and> (ndebug \<or> payload \<noteq> [])
         \<and> length payload \<le> unat (limitLiteralMatcherSize (grey cc))
         \<and> events = [call, Alloc_HWLM (ptr_size h)]
         \<and> h = \<lparr> ptr_get = \<lparr> hwlm_type = engType, hwlm_data = payload \<rparr>,
                 ptr_size = ROUNDUP_CL sizeof_HWLM + of_nat (length payload) \<rparr>"
proof (cases "hwlmBuild_engine noodBuildTable fdrBuildTable lits make_small cc")
  case (fields call engType eng)
  then show ?thesis
    using assms
    by (auto simp: hwlmBuild_def split: option.splits if_splits)
qed

text \<open>
  Sizes as words: a payload within the compiled-size ceiling has its exact length
  as its \<^verbatim>\<open>size_t\<close> size, and a sum that does not wrap lies above its summand.
\<close>

lemma payload_size_nonzero:
  assumes "payload \<noteq> []" and "length payload \<le> unat (limit :: u32)"
  shows "unat (of_nat (length payload) :: size_t) = length payload"
    and "(of_nat (length payload) :: size_t) \<noteq> 0"
proof -
  have "unat limit < 2 ^ 32"
    using unsigned_less [of limit] by simp
  then have "length payload < 2 ^ 64"
    using assms(2) by simp
  then show u: "unat (of_nat (length payload) :: size_t) = length payload"
    by (simp add: unat_of_nat)
  have "0 < length payload"
    using assms(1) by simp
  with u have "0 < unat (of_nat (length payload) :: size_t)"
    by simp
  then show "(of_nat (length payload) :: size_t) \<noteq> 0"
    by (simp add: unat_gt_0)
qed

lemma word_add_above:
  assumes "e \<noteq> 0" and "unat (e :: size_t) + unat (r :: size_t) < 2 ^ 64"
  shows "r < e + r"
proof -
  have "unat e + unat r < 2 ^ LENGTH(64)"
    using assms(2) by simp
  then have "unat (e + r) = unat e + unat r"
    by (simp only: unat_add_lem)
  moreover have "0 < unat e"
    using assms(1) by (simp add: unat_gt_0)
  ultimately show ?thesis
    by (simp add: word_less_nat_alt)
qed

section \<open>Engine selection\<close>

text \<open>
  C1. \<^verbatim>\<open>isNoodleable\<close> holds if and only if the specialist is enabled, the batch
  is exactly one literal and that literal has an empty supplementary mask. A build
  call that reaches the selection (its checks have passed) invokes exactly one
  engine builder. When \<^verbatim>\<open>isNoodleable\<close> holds it is the single-literal builder, on
  the one literal: the call returns a null pointer exactly when that builder does, a
  returned blob carries the single-literal tag and that builder's payload, and the
  outcome does not depend on the multi-literal builder. For every other batch it is
  the multi-literal builder, on the whole batch, the hint, the target and the
  configuration, with the multi-literal tag and that builder's payload, and the
  outcome does not depend on the single-literal builder.
\<close>

theorem engine_selection:
  "(isNoodleable lits cc
      \<longleftrightarrow> allowNoodle (grey cc) \<and> (\<exists>lit. lits = [lit] \<and> lit_msk lit = []))
   \<and> (hwlmBuild_checks ndebug cc lits = None \<and> isNoodleable lits cc \<longrightarrow>
        filter is_builder_call
          (fst (hwlmBuild ndebug noodBuildTable fdrBuildTable sizeof_HWLM
                  lits make_small cc expected_groups))
          = [Call_noodBuildTable]
        \<and> (snd (hwlmBuild ndebug noodBuildTable fdrBuildTable sizeof_HWLM
                   lits make_small cc expected_groups) = Inr None
             \<longleftrightarrow> noodBuildTable (hd lits) = None)
        \<and> (\<forall>h. snd (hwlmBuild ndebug noodBuildTable fdrBuildTable sizeof_HWLM
                        lits make_small cc expected_groups) = Inr (Some h)
               \<longrightarrow> hwlm_type (ptr_get h) = HWLM_ENGINE_NOOD
                   \<and> noodBuildTable (hd lits) = Some (hwlm_data (ptr_get h)))
        \<and> hwlmBuild ndebug noodBuildTable fdrBuildTable sizeof_HWLM
             lits make_small cc expected_groups
           = hwlmBuild ndebug noodBuildTable otherFdrBuildTable sizeof_HWLM
               lits make_small cc expected_groups)
   \<and> (hwlmBuild_checks ndebug cc lits = None \<and> \<not> isNoodleable lits cc \<longrightarrow>
        filter is_builder_call
          (fst (hwlmBuild ndebug noodBuildTable fdrBuildTable sizeof_HWLM
                  lits make_small cc expected_groups))
          = [Call_fdrBuildTable]
        \<and> (snd (hwlmBuild ndebug noodBuildTable fdrBuildTable sizeof_HWLM
                   lits make_small cc expected_groups) = Inr None
             \<longleftrightarrow> fdrBuildTable lits make_small (target_info cc) (grey cc) = None)
        \<and> (\<forall>h. snd (hwlmBuild ndebug noodBuildTable fdrBuildTable sizeof_HWLM
                        lits make_small cc expected_groups) = Inr (Some h)
               \<longrightarrow> hwlm_type (ptr_get h) = HWLM_ENGINE_FDR
                   \<and> fdrBuildTable lits make_small (target_info cc) (grey cc)
                       = Some (hwlm_data (ptr_get h)))
        \<and> hwlmBuild ndebug noodBuildTable fdrBuildTable sizeof_HWLM
             lits make_small cc expected_groups
           = hwlmBuild ndebug otherNoodBuildTable fdrBuildTable sizeof_HWLM
               lits make_small cc expected_groups)"
proof (intro conjI impI)
  show "isNoodleable lits cc
      \<longleftrightarrow> allowNoodle (grey cc) \<and> (\<exists>lit. lits = [lit] \<and> lit_msk lit = [])"
  proof (cases lits)
    case Nil
    then show ?thesis by (simp add: isNoodleable_def)
  next
    case (Cons x xs)
    then show ?thesis by (cases xs) (auto simp: isNoodleable_def)
  qed
next
  assume a: "hwlmBuild_checks ndebug cc lits = None \<and> isNoodleable lits cc"
  then show "filter is_builder_call
          (fst (hwlmBuild ndebug noodBuildTable fdrBuildTable sizeof_HWLM
                  lits make_small cc expected_groups))
          = [Call_noodBuildTable]"
    by (simp add: hwlmBuild_events_passed hwlmBuild_engine_call)
  from a show "snd (hwlmBuild ndebug noodBuildTable fdrBuildTable sizeof_HWLM
                   lits make_small cc expected_groups) = Inr None
             \<longleftrightarrow> noodBuildTable (hd lits) = None"
    by (simp add: hwlmBuild_def hwlmBuild_engine_def split: option.split)
  from a show "\<forall>h. snd (hwlmBuild ndebug noodBuildTable fdrBuildTable sizeof_HWLM
                        lits make_small cc expected_groups) = Inr (Some h)
               \<longrightarrow> hwlm_type (ptr_get h) = HWLM_ENGINE_NOOD
                   \<and> noodBuildTable (hd lits) = Some (hwlm_data (ptr_get h))"
    by (auto simp: hwlmBuild_def hwlmBuild_engine_def split: option.splits if_splits)
  from a show "hwlmBuild ndebug noodBuildTable fdrBuildTable sizeof_HWLM
             lits make_small cc expected_groups
           = hwlmBuild ndebug noodBuildTable otherFdrBuildTable sizeof_HWLM
               lits make_small cc expected_groups"
    by (simp add: hwlmBuild_def hwlmBuild_engine_def)
next
  assume b: "hwlmBuild_checks ndebug cc lits = None \<and> \<not> isNoodleable lits cc"
  then show "filter is_builder_call
          (fst (hwlmBuild ndebug noodBuildTable fdrBuildTable sizeof_HWLM
                  lits make_small cc expected_groups))
          = [Call_fdrBuildTable]"
    by (simp add: hwlmBuild_events_passed hwlmBuild_engine_call)
  from b show "snd (hwlmBuild ndebug noodBuildTable fdrBuildTable sizeof_HWLM
                   lits make_small cc expected_groups) = Inr None
             \<longleftrightarrow> fdrBuildTable lits make_small (target_info cc) (grey cc) = None"
    by (simp add: hwlmBuild_def hwlmBuild_engine_def split: option.split)
  from b show "\<forall>h. snd (hwlmBuild ndebug noodBuildTable fdrBuildTable sizeof_HWLM
                        lits make_small cc expected_groups) = Inr (Some h)
               \<longrightarrow> hwlm_type (ptr_get h) = HWLM_ENGINE_FDR
                   \<and> fdrBuildTable lits make_small (target_info cc) (grey cc)
                       = Some (hwlm_data (ptr_get h))"
    by (auto simp: hwlmBuild_def hwlmBuild_engine_def split: option.splits if_splits)
  from b show "hwlmBuild ndebug noodBuildTable fdrBuildTable sizeof_HWLM
             lits make_small cc expected_groups
           = hwlmBuild ndebug otherNoodBuildTable fdrBuildTable sizeof_HWLM
               lits make_small cc expected_groups"
    by (simp add: hwlmBuild_def hwlmBuild_engine_def)
qed

theorem engine_selection_witness:
  "isNoodleable [example_lit ''abc'' 1] example_cc
   \<and> hwlmBuild True (const_noodBuildTable (Some [1])) (const_fdrBuildTable (Some [2])) 48
       [example_lit ''abc'' 1] False example_cc 1
     = ([Call_noodBuildTable, Alloc_HWLM 65],
        Inr (Some \<lparr> ptr_get = \<lparr> hwlm_type = HWLM_ENGINE_NOOD, hwlm_data = [1] \<rparr>,
                    ptr_size = 65 \<rparr>))
   \<and> hwlmBuild True (const_noodBuildTable (Some [1])) (const_fdrBuildTable (Some [2])) 48
       [example_lit ''abc'' 1] False example_cc 1
     = hwlmBuild True (const_noodBuildTable (Some [1])) (const_fdrBuildTable None) 48
       [example_lit ''abc'' 1] False example_cc 1
   \<and> \<not> isNoodleable [example_lit ''abc'' 1, example_lit ''xy'' 2] example_cc
   \<and> hwlmBuild True (const_noodBuildTable (Some [1])) (const_fdrBuildTable (Some [2])) 48
       [example_lit ''abc'' 1, example_lit ''xy'' 2] False example_cc 1
     = ([Call_fdrBuildTable, Alloc_HWLM 65],
        Inr (Some \<lparr> ptr_get = \<lparr> hwlm_type = HWLM_ENGINE_FDR, hwlm_data = [2] \<rparr>,
                    ptr_size = 65 \<rparr>))
   \<and> hwlmBuild True (const_noodBuildTable (Some [1])) (const_fdrBuildTable (Some [2])) 48
       [example_lit ''abc'' 1, example_lit ''xy'' 2] False example_cc 1
     = hwlmBuild True (const_noodBuildTable None) (const_fdrBuildTable (Some [2])) 48
       [example_lit ''abc'' 1, example_lit ''xy'' 2] False example_cc 1
   \<and> \<not> isNoodleable [(example_lit ''abc'' 1) \<lparr> lit_msk := [255], lit_cmp := [97] \<rparr>] example_cc
   \<and> hwlmBuild True (const_noodBuildTable (Some [1])) (const_fdrBuildTable (Some [2])) 48
       [(example_lit ''abc'' 1) \<lparr> lit_msk := [255], lit_cmp := [97] \<rparr>] False example_cc 1
     = ([Call_fdrBuildTable, Alloc_HWLM 65],
        Inr (Some \<lparr> ptr_get = \<lparr> hwlm_type = HWLM_ENGINE_FDR, hwlm_data = [2] \<rparr>,
                    ptr_size = 65 \<rparr>))"
proof -
  let ?nb = "const_noodBuildTable (Some [1])" and ?fb = "const_fdrBuildTable (Some [2])"
  let ?one = "[example_lit ''abc'' 1]"
  let ?two = "[example_lit ''abc'' 1, example_lit ''xy'' 2]"
  let ?masked = "[(example_lit ''abc'' 1) \<lparr> lit_msk := [255], lit_cmp := [97] \<rparr>]"
  have s1: "hwlmBuild_checks True example_cc ?one = None \<and> isNoodleable ?one example_cc"
    by (simp add: example_defs hwlmBuild_checks_def isNoodleable_def)
  have s2: "hwlmBuild_checks True example_cc ?two = None \<and> \<not> isNoodleable ?two example_cc"
    by (simp add: example_defs hwlmBuild_checks_def isNoodleable_def)
  have s3: "hwlmBuild_checks True example_cc ?masked = None
              \<and> \<not> isNoodleable ?masked example_cc"
    by (simp add: example_defs hwlmBuild_checks_def isNoodleable_def)
  note nood = engine_selection
      [where lits = ?one and cc = example_cc and ndebug = True and noodBuildTable = ?nb
         and fdrBuildTable = ?fb and sizeof_HWLM = 48 and make_small = False
         and expected_groups = 1 and otherFdrBuildTable = "const_fdrBuildTable None",
       THEN conjunct2, THEN conjunct1, THEN mp, OF s1]
  note fdr2 = engine_selection
      [where lits = ?two and cc = example_cc and ndebug = True and noodBuildTable = ?nb
         and fdrBuildTable = ?fb and sizeof_HWLM = 48 and make_small = False
         and expected_groups = 1 and otherNoodBuildTable = "const_noodBuildTable None",
       THEN conjunct2, THEN conjunct2, THEN mp, OF s2]
  have v1: "hwlmBuild True ?nb ?fb 48 ?one False example_cc 1
     = ([Call_noodBuildTable, Alloc_HWLM 65],
        Inr (Some \<lparr> ptr_get = \<lparr> hwlm_type = HWLM_ENGINE_NOOD, hwlm_data = [1] \<rparr>,
                    ptr_size = 65 \<rparr>))"
    by (simp add: example_defs build_defs ROUNDUP_CL_def)
  have v2: "hwlmBuild True ?nb ?fb 48 ?two False example_cc 1
     = ([Call_fdrBuildTable, Alloc_HWLM 65],
        Inr (Some \<lparr> ptr_get = \<lparr> hwlm_type = HWLM_ENGINE_FDR, hwlm_data = [2] \<rparr>,
                    ptr_size = 65 \<rparr>))"
    by (simp add: example_defs build_defs ROUNDUP_CL_def)
  have v3: "hwlmBuild True ?nb ?fb 48 ?masked False example_cc 1
     = ([Call_fdrBuildTable, Alloc_HWLM 65],
        Inr (Some \<lparr> ptr_get = \<lparr> hwlm_type = HWLM_ENGINE_FDR, hwlm_data = [2] \<rparr>,
                    ptr_size = 65 \<rparr>))"
    by (simp add: example_defs build_defs ROUNDUP_CL_def)
  have indep: "hwlmBuild True ?nb ?fb 48 ?one False example_cc 1
     = hwlmBuild True ?nb (const_fdrBuildTable None) 48 ?one False example_cc 1"
    using nood by (elim conjE)
  have indep2: "hwlmBuild True ?nb ?fb 48 ?two False example_cc 1
     = hwlmBuild True (const_noodBuildTable None) ?fb 48 ?two False example_cc 1"
    using fdr2 by (elim conjE)
  from s1 s2 s3 v1 v2 v3 indep indep2 show ?thesis
    by (intro conjI) (elim conjE, assumption)+
qed

section \<open>The resource and safety checks\<close>

text \<open>
  C4 (as amended). The build call ends with the resource limit error, and no
  effect at all (no builder is invoked), whenever the literal count exceeds its
  ceiling, or some literal is longer than the per-literal ceiling or takes the sum
  of the pattern lengths up to and including it over the character budget, provided
  that no literal before that one carries the reserved id (nor, in a build with
  assertions, has an empty pattern). The budget case needs no literal to be too long
  by itself.
\<close>

theorem hwlmBuild_resource_limits:
  assumes "unat (limitLiteralCount (grey cc)) < length lits
           \<or> (\<exists>pre l post. lits = pre @ l # post
                \<and> (\<forall>x\<in>set pre. lit_id x \<noteq> 0xffffffff \<and> (ndebug \<or> lit_s x \<noteq> []))
                \<and> (unat (limitLiteralLength (grey cc)) < length (lit_s l)
                    \<or> unat (limitLiteralMatcherChars (grey cc))
                        < sum_list (map (\<lambda>y. length (lit_s y)) (pre @ [l]))))"
  shows "hwlmBuild ndebug noodBuildTable fdrBuildTable sizeof_HWLM
           lits make_small cc expected_groups = ([], Inl ResourceLimitError)"
proof -
  have checks: "hwlmBuild_checks ndebug cc lits = Some ResourceLimitError"
  proof (cases "unat (limitLiteralCount (grey cc)) < length lits")
    case True
    then have "lits \<noteq> []" by auto
    with True show ?thesis by (simp add: hwlmBuild_checks_def)
  next
    case False
    with assms obtain pre l post where split: "lits = pre @ l # post"
      and clean: "\<forall>x\<in>set pre. lit_id x \<noteq> 0xffffffff \<and> (ndebug \<or> lit_s x \<noteq> [])"
      and over: "unat (limitLiteralLength (grey cc)) < length (lit_s l)
                 \<or> unat (limitLiteralMatcherChars (grey cc))
                     < sum_list (map (\<lambda>y. length (lit_s y)) (pre @ [l]))"
      by blast
    have "hwlmBuild_loop ndebug (grey cc) 0 (pre @ l # post) = Some ResourceLimitError"
      by (rule hwlmBuild_loop_resource) (use clean over in simp_all)
    with False split show ?thesis by (simp add: hwlmBuild_checks_def)
  qed
  then show ?thesis by (simp add: hwlmBuild_def)
qed

theorem hwlmBuild_resource_limits_witness:
  "hwlmBuild True (const_noodBuildTable (Some [1])) (const_fdrBuildTable (Some [1])) 48
     [example_lit ''ab'' 1, example_lit ''cd'' 2, example_lit ''ef'' 3] False example_cc 1
     = ([], Inl ResourceLimitError)
   \<and> hwlmBuild False (const_noodBuildTable (Some [1])) (const_fdrBuildTable (Some [1])) 48
     [example_lit ''a'' 1, example_lit ''b'' 2, example_lit ''c'' 3, example_lit ''d'' 4]
     False example_cc 1
     = ([], Inl ResourceLimitError)
   \<and> hwlmBuild True (const_noodBuildTable (Some [1])) (const_fdrBuildTable (Some [1])) 48
     [example_lit ''a'' 1, example_lit ''bcde'' 2] False example_cc 1
     = ([], Inl ResourceLimitError)"
proof -
  let ?nb = "const_noodBuildTable (Some [1])" and ?fb = "const_fdrBuildTable (Some [1])"
  have budget: "\<exists>pre l post.
      [example_lit ''ab'' 1, example_lit ''cd'' 2, example_lit ''ef'' 3] = pre @ l # post
      \<and> (\<forall>x\<in>set pre. lit_id x \<noteq> 0xffffffff \<and> (True \<or> lit_s x \<noteq> []))
      \<and> (unat (limitLiteralLength (grey example_cc)) < length (lit_s l)
          \<or> unat (limitLiteralMatcherChars (grey example_cc))
              < sum_list (map (\<lambda>y. length (lit_s y)) (pre @ [l])))"
    by (rule exI [of _ "[example_lit ''ab'' 1, example_lit ''cd'' 2]"],
        rule exI [of _ "example_lit ''ef'' 3"], rule exI [of _ "[]"])
      (simp add: example_defs)
  have count: "unat (limitLiteralCount (grey example_cc))
      < length [example_lit ''a'' 1, example_lit ''b'' 2, example_lit ''c'' 3, example_lit ''d'' 4]"
    by (simp add: example_defs)
  have long: "\<exists>pre l post.
      [example_lit ''a'' 1, example_lit ''bcde'' 2] = pre @ l # post
      \<and> (\<forall>x\<in>set pre. lit_id x \<noteq> 0xffffffff \<and> (True \<or> lit_s x \<noteq> []))
      \<and> (unat (limitLiteralLength (grey example_cc)) < length (lit_s l)
          \<or> unat (limitLiteralMatcherChars (grey example_cc))
              < sum_list (map (\<lambda>y. length (lit_s y)) (pre @ [l])))"
    by (rule exI [of _ "[example_lit ''a'' 1]"],
        rule exI [of _ "example_lit ''bcde'' 2"], rule exI [of _ "[]"])
      (simp add: example_defs)
  show ?thesis
    using hwlmBuild_resource_limits [of example_cc _ True ?nb ?fb 48 False 1, OF disjI2, OF budget]
      hwlmBuild_resource_limits [of example_cc _ False ?nb ?fb 48 False 1, OF disjI1, OF count]
      hwlmBuild_resource_limits [of example_cc _ True ?nb ?fb 48 False 1, OF disjI2, OF long]
    by simp
qed

text \<open>
  The claim as stated fails when a literal with the reserved id comes first: the
  second literal is longer than the ceiling, yet the call ends with the internal
  error raised at the first.
\<close>

theorem hwlmBuild_resource_limits_counterexample:
  "unat (limitLiteralLength (grey example_cc)) < length (lit_s (example_lit ''bcde'' 2))
   \<and> hwlmBuild True (const_noodBuildTable (Some [1])) (const_fdrBuildTable (Some [1])) 48
       [example_lit ''a'' 0xffffffff, example_lit ''bcde'' 2] False example_cc 1
     = ([], Inl (CompileError ''Internal error.''))"
  by (simp add: example_defs build_defs)

text \<open>
  C6 (as amended). When the literal count is within its ceiling and the first
  literal with the reserved id is reached within the limits (it and every literal
  before it within the per-literal ceiling, their lengths together within the
  character budget; in a build with assertions, it and every literal before it with
  a non-empty pattern), the loop runs past every literal before that one and the
  build call ends at its id check: with the internal error
  \<^verbatim>\<open>CompileError("Internal error.")\<close>, which is not the resource limit error, or, in a
  build with assertions, at the assertion on the reserved id. No builder is invoked.
\<close>

theorem hwlmBuild_reserved_id:
  assumes "length lits \<le> unat (limitLiteralCount (grey cc))"
    and "lits = pre @ l # post"
    and "lit_id l = 0xffffffff"
    and "\<forall>x\<in>set pre. lit_id x \<noteq> 0xffffffff"
    and "\<forall>x\<in>set (pre @ [l]). length (lit_s x) \<le> unat (limitLiteralLength (grey cc))"
    and "sum_list (map (\<lambda>y. length (lit_s y)) (pre @ [l]))
           \<le> unat (limitLiteralMatcherChars (grey cc))"
    and "ndebug \<or> (\<forall>x\<in>set (pre @ [l]). lit_s x \<noteq> [])"
  shows "hwlmBuild ndebug noodBuildTable fdrBuildTable sizeof_HWLM
           lits make_small cc expected_groups
         = ([], Inl (if ndebug then CompileError ''Internal error.'' else AssertionFailure))
       \<and> hwlmBuild_loop ndebug (grey cc) 0 pre = None
       \<and> (ndebug \<or> lit_s l \<noteq> [])"
proof -
  have "hwlmBuild_loop ndebug (grey cc) 0 (pre @ l # post)
          = Some (if ndebug then CompileError ''Internal error.'' else AssertionFailure)"
    by (rule hwlmBuild_loop_reserved) (use assms in simp_all)
  then have "hwlmBuild_checks ndebug cc lits
          = Some (if ndebug then CompileError ''Internal error.'' else AssertionFailure)"
    using assms(1,2) by (simp add: hwlmBuild_checks_def)
  then have result: "hwlmBuild ndebug noodBuildTable fdrBuildTable sizeof_HWLM
           lits make_small cc expected_groups
         = ([], Inl (if ndebug then CompileError ''Internal error.'' else AssertionFailure))"
    by (simp add: hwlmBuild_def)
  have before: "hwlmBuild_loop ndebug (grey cc) 0 pre = None"
  proof (rule hwlmBuild_loop_pass)
    show "unat (0 :: u64a) + sum_list (map (\<lambda>y. length (lit_s y)) pre)
            \<le> unat (limitLiteralMatcherChars (grey cc))"
      using assms(6) by simp
    show "\<forall>x\<in>set pre. length (lit_s x) \<le> unat (limitLiteralLength (grey cc))"
      using assms(5) by simp
    show "\<forall>x\<in>set pre. lit_id x \<noteq> 0xffffffff"
      using assms(4) .
    show "ndebug \<or> (\<forall>x\<in>set pre. lit_s x \<noteq> [])"
      using assms(7) by auto
  qed
  have "ndebug \<or> lit_s l \<noteq> []"
    using assms(7) by auto
  with result before show ?thesis by simp
qed

theorem hwlmBuild_reserved_id_witness:
  "hwlmBuild True (const_noodBuildTable (Some [1])) (const_fdrBuildTable (Some [1])) 48
     [example_lit ''ab'' 1, example_lit ''cd'' 0xffffffff, example_lit ''efgh'' 3]
     False example_cc 1
     = ([], Inl (CompileError ''Internal error.''))
   \<and> hwlmBuild False (const_noodBuildTable (Some [1])) (const_fdrBuildTable (Some [1])) 48
     [example_lit ''ab'' 1, example_lit ''cd'' 0xffffffff, example_lit ''efgh'' 3]
     False example_cc 1
     = ([], Inl AssertionFailure)
   \<and> hwlmBuild_loop False (grey example_cc) 0 [example_lit ''ab'' 1] = None"
proof -
  let ?nb = "const_noodBuildTable (Some [1])" and ?fb = "const_fdrBuildTable (Some [1])"
  let ?lits = "[example_lit ''ab'' 1, example_lit ''cd'' 0xffffffff, example_lit ''efgh'' 3]"
  have count: "length ?lits \<le> unat (limitLiteralCount (grey example_cc))"
    by (simp add: example_defs)
  have split: "?lits = [example_lit ''ab'' 1] @ example_lit ''cd'' 0xffffffff
                 # [example_lit ''efgh'' 3]"
    by simp
  have reserved: "lit_id (example_lit ''cd'' 0xffffffff) = 0xffffffff"
    by (simp add: example_defs)
  have before: "\<forall>x\<in>set [example_lit ''ab'' 1]. lit_id x \<noteq> 0xffffffff"
    by (simp add: example_defs)
  have lens: "\<forall>x\<in>set ([example_lit ''ab'' 1] @ [example_lit ''cd'' 0xffffffff]).
                length (lit_s x) \<le> unat (limitLiteralLength (grey example_cc))"
    by (simp add: example_defs)
  have total: "sum_list (map (\<lambda>y. length (lit_s y))
                 ([example_lit ''ab'' 1] @ [example_lit ''cd'' 0xffffffff]))
               \<le> unat (limitLiteralMatcherChars (grey example_cc))"
    by (simp add: example_defs)
  have pats: "b \<or> (\<forall>x\<in>set ([example_lit ''ab'' 1] @ [example_lit ''cd'' 0xffffffff]).
                lit_s x \<noteq> [])" for b
    by (simp add: example_defs)
  show ?thesis
    using hwlmBuild_reserved_id [OF count split reserved before lens total pats,
        of True ?nb ?fb 48 False 1]
      hwlmBuild_reserved_id [OF count split reserved before lens total pats,
        of False ?nb ?fb 48 False 1]
    by simp
qed

text \<open>
  The claim as stated fails when a limit is hit first: a single literal with the
  reserved id and a pattern of 4 characters under a ceiling of 3 ends with the
  resource limit error.
\<close>

theorem hwlmBuild_reserved_id_counterexample:
  "lit_id (example_lit ''abcd'' 0xffffffff) = 0xffffffff
   \<and> hwlmBuild True (const_noodBuildTable (Some [1])) (const_fdrBuildTable (Some [1])) 48
       [example_lit ''abcd'' 0xffffffff] False example_cc 1
     = ([], Inl ResourceLimitError)"
  by (simp add: example_defs build_defs)

section \<open>Packaging\<close>

text \<open>
  C7. When the checks have passed, so that a builder is invoked, and that builder
  returns a payload whose size exceeds the compiled-size ceiling, the build call
  ends with the resource limit error; its only effect is the builder call, so no
  blob is allocated and none is returned.
\<close>

theorem hwlmBuild_payload_over_ceiling:
  assumes "hwlmBuild_checks ndebug cc lits = None"
    and "hwlmBuild_engine noodBuildTable fdrBuildTable lits make_small cc
           = (call, engType, Some payload)"
    and "unat (limitLiteralMatcherSize (grey cc)) < length payload"
  shows "hwlmBuild ndebug noodBuildTable fdrBuildTable sizeof_HWLM
           lits make_small cc expected_groups = ([call], Inl ResourceLimitError)
         \<and> is_builder_call call
         \<and> filter is_allocation
               (fst (hwlmBuild ndebug noodBuildTable fdrBuildTable sizeof_HWLM
                       lits make_small cc expected_groups)) = []"
proof -
  have "payload \<noteq> []"
    using assms(3) by auto
  then have result: "hwlmBuild ndebug noodBuildTable fdrBuildTable sizeof_HWLM
           lits make_small cc expected_groups = ([call], Inl ResourceLimitError)"
    using assms by (simp add: hwlmBuild_def)
  have "call = (if isNoodleable lits cc then Call_noodBuildTable else Call_fdrBuildTable)"
    using hwlmBuild_engine_call [of noodBuildTable fdrBuildTable lits make_small cc] assms(2)
    by simp
  then have "is_builder_call call" and "\<not> is_allocation call"
    by simp_all
  with result show ?thesis by simp
qed

theorem hwlmBuild_payload_over_ceiling_witness:
  "hwlmBuild True (const_noodBuildTable (Some [1, 2, 3, 4, 5])) (const_fdrBuildTable None) 48
       [example_lit ''abc'' 1] False example_cc 1
     = ([Call_noodBuildTable], Inl ResourceLimitError)
   \<and> hwlmBuild False (const_noodBuildTable None) (const_fdrBuildTable (Some [1, 2, 3, 4, 5])) 48
       [example_lit ''abc'' 1, example_lit ''de'' 2] False example_cc 1
     = ([Call_fdrBuildTable], Inl ResourceLimitError)"
proof -
  let ?p = "[1, 2, 3, 4, 5] :: u8 list"
  have c1: "hwlmBuild_checks True example_cc [example_lit ''abc'' 1] = None"
    by (simp add: example_defs hwlmBuild_checks_def)
  have e1: "hwlmBuild_engine (const_noodBuildTable (Some ?p)) (const_fdrBuildTable None)
              [example_lit ''abc'' 1] False example_cc
            = (Call_noodBuildTable, HWLM_ENGINE_NOOD, Some ?p)"
    by (simp add: example_defs hwlmBuild_engine_def isNoodleable_def)
  have c2: "hwlmBuild_checks False example_cc [example_lit ''abc'' 1, example_lit ''de'' 2] = None"
    by (simp add: example_defs hwlmBuild_checks_def)
  have e2: "hwlmBuild_engine (const_noodBuildTable None) (const_fdrBuildTable (Some ?p))
              [example_lit ''abc'' 1, example_lit ''de'' 2] False example_cc
            = (Call_fdrBuildTable, HWLM_ENGINE_FDR, Some ?p)"
    by (simp add: example_defs hwlmBuild_engine_def isNoodleable_def)
  have big: "unat (limitLiteralMatcherSize (grey example_cc)) < length ?p"
    by (simp add: example_defs)
  show ?thesis
    using hwlmBuild_payload_over_ceiling [OF c1 e1 big, of 48 1]
      hwlmBuild_payload_over_ceiling [OF c2 e2 big, of 48 1]
    by simp
qed

text \<open>
  C9 (as amended). When the checks have passed and the invoked builder returns a
  null pointer, the build call returns a null pointer and raises nothing. A payload
  that is not null and has size zero is not treated as an empty result: a build with
  assertions stops at \<^verbatim>\<open>assert(engSize)\<close>, and a build without them allocates and
  returns a blob that is the header alone.
\<close>

theorem hwlmBuild_empty_result:
  assumes "hwlmBuild_checks ndebug cc lits = None"
    and "hwlmBuild_engine noodBuildTable fdrBuildTable lits make_small cc
           = (call, engType, eng)"
  shows "(eng = None \<longrightarrow>
            hwlmBuild ndebug noodBuildTable fdrBuildTable sizeof_HWLM
              lits make_small cc expected_groups = ([call], Inr None))
       \<and> (eng = Some [] \<longrightarrow>
            hwlmBuild ndebug noodBuildTable fdrBuildTable sizeof_HWLM
              lits make_small cc expected_groups
            = (if ndebug
               then ([call, Alloc_HWLM (ROUNDUP_CL sizeof_HWLM)],
                     Inr (Some \<lparr> ptr_get = \<lparr> hwlm_type = engType, hwlm_data = [] \<rparr>,
                                 ptr_size = ROUNDUP_CL sizeof_HWLM \<rparr>))
               else ([call], Inl AssertionFailure)))"
  using assms by (simp add: hwlmBuild_def)

theorem hwlmBuild_empty_result_witness:
  "hwlmBuild True (const_noodBuildTable None) (const_fdrBuildTable (Some [2])) 48
       [example_lit ''abc'' 1] False example_cc 1
     = ([Call_noodBuildTable], Inr None)
   \<and> hwlmBuild False (const_noodBuildTable (Some [1])) (const_fdrBuildTable None) 48
       [example_lit ''abc'' 1, example_lit ''xy'' 2] False example_cc 1
     = ([Call_fdrBuildTable], Inr None)"
proof -
  have c1: "hwlmBuild_checks True example_cc [example_lit ''abc'' 1] = None"
    by (simp add: example_defs hwlmBuild_checks_def)
  have e1: "hwlmBuild_engine (const_noodBuildTable None) (const_fdrBuildTable (Some [2]))
              [example_lit ''abc'' 1] False example_cc
            = (Call_noodBuildTable, HWLM_ENGINE_NOOD, None)"
    by (simp add: example_defs hwlmBuild_engine_def isNoodleable_def)
  have c2: "hwlmBuild_checks False example_cc [example_lit ''abc'' 1, example_lit ''xy'' 2] = None"
    by (simp add: example_defs hwlmBuild_checks_def)
  have e2: "hwlmBuild_engine (const_noodBuildTable (Some [1])) (const_fdrBuildTable None)
              [example_lit ''abc'' 1, example_lit ''xy'' 2] False example_cc
            = (Call_fdrBuildTable, HWLM_ENGINE_FDR, None)"
    by (simp add: example_defs hwlmBuild_engine_def isNoodleable_def)
  show ?thesis
    using hwlmBuild_empty_result [OF c1 e1, of 48 1] hwlmBuild_empty_result [OF c2 e2, of 48 1]
    by simp
qed

text \<open>
  The second half of the claim as stated fails: for a payload of size zero the
  call returns a blob of 64 bytes without assertions, and stops at the assertion
  with them.
\<close>

theorem hwlmBuild_empty_result_counterexample:
  "hwlmBuild True (const_noodBuildTable (Some [])) (const_fdrBuildTable None) 48
       [example_lit ''abc'' 1] False example_cc 1
     = ([Call_noodBuildTable, Alloc_HWLM 64],
        Inr (Some \<lparr> ptr_get = \<lparr> hwlm_type = HWLM_ENGINE_NOOD, hwlm_data = [] \<rparr>,
                    ptr_size = 64 \<rparr>))
   \<and> hwlmBuild False (const_noodBuildTable (Some [])) (const_fdrBuildTable None) 48
       [example_lit ''abc'' 1] False example_cc 1
     = ([Call_noodBuildTable], Inl AssertionFailure)"
  by (simp add: example_defs build_defs ROUNDUP_CL_def)

text \<open>
  C8 (as amended). For a non-empty batch within the count ceiling, the per-literal
  ceiling and the character budget, in which no literal carries the reserved id (and,
  in a build with assertions, every pattern is non-empty and every group mask
  non-zero), if the selected builder returns a payload that is not null, of non-zero
  size within the compiled-size ceiling, the build call returns a blob. The Size
  Inspector reports a size above zero for it when the selected engine's size
  function reports the payload's size and header plus payload fit
  \<^verbatim>\<open>size_t\<close>.
\<close>

theorem hwlmBuild_success:
  assumes "lits \<noteq> []"
    and "length lits \<le> unat (limitLiteralCount (grey cc))"
    and "\<forall>x\<in>set lits. length (lit_s x) \<le> unat (limitLiteralLength (grey cc))"
    and "sum_list (map (\<lambda>y. length (lit_s y)) lits) \<le> unat (limitLiteralMatcherChars (grey cc))"
    and "\<forall>x\<in>set lits. lit_id x \<noteq> 0xffffffff"
    and "ndebug \<or> (\<forall>x\<in>set lits. lit_s x \<noteq> [] \<and> lit_groups x \<noteq> 0)"
    and "hwlmBuild_engine noodBuildTable fdrBuildTable lits make_small cc
           = (call, engType, Some payload)"
    and "payload \<noteq> []"
    and "length payload \<le> unat (limitLiteralMatcherSize (grey cc))"
    and "(if isNoodleable lits cc then noodSize payload else fdrSize payload)
           = of_nat (length payload)"
    and "unat (ROUNDUP_CL sizeof_HWLM) + length payload < 2 ^ 64"
  shows "\<exists>h. hwlmBuild ndebug noodBuildTable fdrBuildTable sizeof_HWLM
               lits make_small cc expected_groups
             = ([call, Alloc_HWLM (ptr_size h)], Inr (Some h))
           \<and> 0 < hwlmSize noodSize fdrSize sizeof_HWLM (ptr_get h)"
proof -
  let ?h = "\<lparr> ptr_get = \<lparr> hwlm_type = engType, hwlm_data = payload \<rparr>,
              ptr_size = ROUNDUP_CL sizeof_HWLM + of_nat (length payload) \<rparr>"
  have loop: "hwlmBuild_loop ndebug (grey cc) 0 lits = None"
    by (rule hwlmBuild_loop_pass) (use assms(3,4,5,6) in auto)
  have groups: "ndebug \<or> everyoneHasGroups lits"
    using assms(6) by (auto simp: everyoneHasGroups_iff)
  have checks: "hwlmBuild_checks ndebug cc lits = None"
    using assms(1,2) loop groups by (auto simp: hwlmBuild_checks_def)
  have built: "hwlmBuild ndebug noodBuildTable fdrBuildTable sizeof_HWLM
               lits make_small cc expected_groups
             = ([call, Alloc_HWLM (ptr_size ?h)], Inr (Some ?h))"
    using checks assms(7,8,9) by (simp add: hwlmBuild_def)
  have u: "unat (of_nat (length payload) :: size_t) = length payload"
    and nz: "(of_nat (length payload) :: size_t) \<noteq> 0"
    using payload_size_nonzero [OF assms(8,9)] by simp_all
  have above: "ROUNDUP_CL sizeof_HWLM < of_nat (length payload) + ROUNDUP_CL sizeof_HWLM"
    by (rule word_add_above) (use nz u assms(11) in simp_all)
  have tag: "engType = (if isNoodleable lits cc then HWLM_ENGINE_NOOD else HWLM_ENGINE_FDR)"
    using assms(7) by (rule hwlmBuild_engine_tag)
  have "hwlmSize noodSize fdrSize sizeof_HWLM (ptr_get ?h)
          = of_nat (length payload) + ROUNDUP_CL sizeof_HWLM"
    using tag assms(10) nz HWLM_ENGINE_distinct
    by (cases "isNoodleable lits cc") (simp_all add: hwlmSize_def Let_def)
  moreover have "0 < of_nat (length payload) + ROUNDUP_CL sizeof_HWLM"
    using above by (rule le_less_trans [rotated]) simp
  ultimately have "0 < hwlmSize noodSize fdrSize sizeof_HWLM (ptr_get ?h)"
    by simp
  with built show ?thesis by blast
qed

theorem hwlmBuild_success_witness:
  "hwlmBuild False (const_noodBuildTable None) (const_fdrBuildTable (Some [1, 2, 3, 4])) 48
       [example_lit ''abc'' 1, example_lit ''xy'' 2] False example_cc 1
     = ([Call_fdrBuildTable, Alloc_HWLM 68],
        Inr (Some \<lparr> ptr_get = \<lparr> hwlm_type = HWLM_ENGINE_FDR, hwlm_data = [1, 2, 3, 4] \<rparr>,
                    ptr_size = 68 \<rparr>))
   \<and> hwlmSize byte_count byte_count 48
       \<lparr> hwlm_type = HWLM_ENGINE_FDR, hwlm_data = [1, 2, 3, 4] \<rparr> = 68"
proof -
  let ?lits = "[example_lit ''abc'' 1, example_lit ''xy'' 2]"
  let ?p = "[1, 2, 3, 4] :: u8 list"
  have batch: "?lits \<noteq> []"
    by simp
  have count: "length ?lits \<le> unat (limitLiteralCount (grey example_cc))"
    by (simp add: example_defs)
  have lens: "\<forall>x\<in>set ?lits. length (lit_s x) \<le> unat (limitLiteralLength (grey example_cc))"
    by (simp add: example_defs)
  have total: "sum_list (map (\<lambda>y. length (lit_s y)) ?lits)
                 \<le> unat (limitLiteralMatcherChars (grey example_cc))"
    by (simp add: example_defs)
  have ids: "\<forall>x\<in>set ?lits. lit_id x \<noteq> 0xffffffff"
    by (simp add: example_defs)
  have asserts: "False \<or> (\<forall>x\<in>set ?lits. lit_s x \<noteq> [] \<and> lit_groups x \<noteq> 0)"
    by (simp add: example_defs)
  have eng: "hwlmBuild_engine (const_noodBuildTable None) (const_fdrBuildTable (Some ?p))
               ?lits False example_cc
             = (Call_fdrBuildTable, HWLM_ENGINE_FDR, Some ?p)"
    by (simp add: example_defs hwlmBuild_engine_def isNoodleable_def)
  have payload: "?p \<noteq> []"
    by simp
  have size: "length ?p \<le> unat (limitLiteralMatcherSize (grey example_cc))"
    by (simp add: example_defs)
  have reported: "(if isNoodleable ?lits example_cc then byte_count ?p else byte_count ?p)
                    = of_nat (length ?p)"
    by (simp add: byte_count_def)
  have fits: "unat (ROUNDUP_CL 48) + length ?p < 2 ^ 64"
    by (simp add: ROUNDUP_CL_def)
  show ?thesis
    using hwlmBuild_success
        [where noodSize = byte_count and fdrSize = byte_count and expected_groups = 1,
          OF batch count lens total ids asserts eng payload size reported fits]
    by (simp add: example_defs build_defs hwlmSize_def ROUNDUP_CL_def
          HWLM_ENGINE_NOOD_def HWLM_ENGINE_FDR_def)
qed

text \<open>
  The claim as stated fails when the builder has nothing to build: the batch of
  two literals is within every limit, the multi-literal builder returns a null
  pointer, and so does the build call.
\<close>

theorem hwlmBuild_success_counterexample:
  "hwlmBuild True (const_noodBuildTable (Some [1])) (const_fdrBuildTable None) 48
       [example_lit ''abc'' 1, example_lit ''xy'' 2] False example_cc 1
     = ([Call_fdrBuildTable], Inr None)"
  by (simp add: example_defs build_defs)

section \<open>The Size Inspector\<close>

text \<open>
  C3. \<^verbatim>\<open>hwlmSize\<close> returns zero when the tag is neither of the two engine tags,
  and when the size function of the tag's engine reports zero; in every other case
  it returns the reported size plus the rounded header size, the sum being the
  \<^verbatim>\<open>size_t\<close> addition of the code. It is a total function into \<^verbatim>\<open>size_t\<close>: there
  is no error it could end with.
\<close>

theorem hwlmSize_cases:
  "(hwlm_type h \<noteq> HWLM_ENGINE_NOOD \<and> hwlm_type h \<noteq> HWLM_ENGINE_FDR \<longrightarrow>
      hwlmSize noodSize fdrSize sizeof_HWLM h = 0)
   \<and> (hwlm_type h = HWLM_ENGINE_NOOD \<longrightarrow>
      hwlmSize noodSize fdrSize sizeof_HWLM h
      = (if noodSize (hwlm_data h) = 0 then 0
         else noodSize (hwlm_data h) + ROUNDUP_CL sizeof_HWLM))
   \<and> (hwlm_type h = HWLM_ENGINE_FDR \<longrightarrow>
      hwlmSize noodSize fdrSize sizeof_HWLM h
      = (if fdrSize (hwlm_data h) = 0 then 0
         else fdrSize (hwlm_data h) + ROUNDUP_CL sizeof_HWLM))"
  using HWLM_ENGINE_distinct by (simp add: hwlmSize_def Let_def)

theorem hwlmSize_cases_witness:
  "hwlmSize byte_count byte_count 48 \<lparr> hwlm_type = 7, hwlm_data = [1, 2, 3] \<rparr> = 0
   \<and> hwlmSize (const_size 0) byte_count 48
        \<lparr> hwlm_type = HWLM_ENGINE_NOOD, hwlm_data = [1, 2, 3] \<rparr> = 0
   \<and> hwlmSize byte_count (const_size 0) 48
        \<lparr> hwlm_type = HWLM_ENGINE_NOOD, hwlm_data = [1, 2, 3] \<rparr> = 67
   \<and> hwlmSize (const_size 0) byte_count 48
        \<lparr> hwlm_type = HWLM_ENGINE_FDR, hwlm_data = [1, 2, 3, 4] \<rparr> = 68"
  using hwlmSize_cases [of "\<lparr> hwlm_type = 7, hwlm_data = [1, 2, 3] \<rparr>" byte_count byte_count 48]
    hwlmSize_cases [of "\<lparr> hwlm_type = HWLM_ENGINE_NOOD, hwlm_data = [1, 2, 3] \<rparr>"
      "const_size 0" byte_count 48]
    hwlmSize_cases [of "\<lparr> hwlm_type = HWLM_ENGINE_NOOD, hwlm_data = [1, 2, 3] \<rparr>"
      byte_count "const_size 0" 48]
    hwlmSize_cases [of "\<lparr> hwlm_type = HWLM_ENGINE_FDR, hwlm_data = [1, 2, 3, 4] \<rparr>"
      "const_size 0" byte_count 48]
  by (simp add: example_defs ROUNDUP_CL_def HWLM_ENGINE_NOOD_def HWLM_ENGINE_FDR_def)

text \<open>
  C10. \<^verbatim>\<open>hwlmSize\<close> returns either zero or a value strictly above the rounded
  header size. The size functions of the engines are parameters; what is assumed of
  them is that the size the tag's engine reports, a byte count of a payload that
  lies behind the header, fits \<^verbatim>\<open>size_t\<close> together with the rounded header size (so
  for every reported size below \<open>2\<^sup>3\<^sup>2\<close> and a header below \<open>2\<^sup>3\<^sup>2\<close>).
\<close>

theorem hwlmSize_zero_or_above_header:
  assumes "hwlm_type h = HWLM_ENGINE_NOOD \<longrightarrow>
             unat (noodSize (hwlm_data h)) + unat (ROUNDUP_CL sizeof_HWLM) < 2 ^ 64"
    and "hwlm_type h = HWLM_ENGINE_FDR \<longrightarrow>
             unat (fdrSize (hwlm_data h)) + unat (ROUNDUP_CL sizeof_HWLM) < 2 ^ 64"
  shows "hwlmSize noodSize fdrSize sizeof_HWLM h = 0
         \<or> ROUNDUP_CL sizeof_HWLM < hwlmSize noodSize fdrSize sizeof_HWLM h"
proof (cases "hwlm_type h = HWLM_ENGINE_NOOD")
  case True
  then show ?thesis
    using assms(1) word_add_above [of "noodSize (hwlm_data h)" "ROUNDUP_CL sizeof_HWLM"]
    by (simp add: hwlmSize_def Let_def)
next
  case False
  then show ?thesis
    using assms(2) word_add_above [of "fdrSize (hwlm_data h)" "ROUNDUP_CL sizeof_HWLM"]
    by (simp add: hwlmSize_def Let_def)
qed

theorem hwlmSize_zero_or_above_header_witness:
  "hwlmSize byte_count byte_count 48
        \<lparr> hwlm_type = HWLM_ENGINE_FDR, hwlm_data = [1, 2, 3] \<rparr> = 67
   \<and> ROUNDUP_CL 48 = 64
   \<and> hwlmSize byte_count byte_count 48
        \<lparr> hwlm_type = HWLM_ENGINE_NOOD, hwlm_data = [] \<rparr> = 0"
proof -
  have a: "hwlm_type \<lparr> hwlm_type = HWLM_ENGINE_FDR, hwlm_data = [1, 2, 3] \<rparr> = HWLM_ENGINE_NOOD
        \<longrightarrow> unat (byte_count (hwlm_data \<lparr> hwlm_type = HWLM_ENGINE_FDR, hwlm_data = [1, 2, 3] \<rparr>))
              + unat (ROUNDUP_CL 48) < 2 ^ 64"
    by (simp add: HWLM_ENGINE_NOOD_def HWLM_ENGINE_FDR_def)
  have b: "hwlm_type \<lparr> hwlm_type = HWLM_ENGINE_FDR, hwlm_data = [1, 2, 3] \<rparr> = HWLM_ENGINE_FDR
        \<longrightarrow> unat (byte_count (hwlm_data \<lparr> hwlm_type = HWLM_ENGINE_FDR, hwlm_data = [1, 2, 3] \<rparr>))
              + unat (ROUNDUP_CL 48) < 2 ^ 64"
    by (simp add: example_defs ROUNDUP_CL_def)
  have c: "hwlm_type \<lparr> hwlm_type = HWLM_ENGINE_NOOD, hwlm_data = [] \<rparr> = HWLM_ENGINE_NOOD
        \<longrightarrow> unat (byte_count (hwlm_data \<lparr> hwlm_type = HWLM_ENGINE_NOOD, hwlm_data = [] \<rparr>))
              + unat (ROUNDUP_CL 48) < 2 ^ 64"
    by (simp add: example_defs ROUNDUP_CL_def)
  have d: "hwlm_type \<lparr> hwlm_type = HWLM_ENGINE_NOOD, hwlm_data = [] \<rparr> = HWLM_ENGINE_FDR
        \<longrightarrow> unat (byte_count (hwlm_data \<lparr> hwlm_type = HWLM_ENGINE_NOOD, hwlm_data = [] \<rparr>))
              + unat (ROUNDUP_CL 48) < 2 ^ 64"
    by (simp add: HWLM_ENGINE_NOOD_def HWLM_ENGINE_FDR_def)
  have r: "ROUNDUP_CL 48 = 64"
    by (simp add: ROUNDUP_CL_def)
  have v1: "hwlmSize byte_count byte_count 48
        \<lparr> hwlm_type = HWLM_ENGINE_FDR, hwlm_data = [1, 2, 3] \<rparr> \<noteq> 0"
    by (simp add: hwlmSize_def example_defs HWLM_ENGINE_NOOD_def HWLM_ENGINE_FDR_def r)
  show ?thesis
    using hwlmSize_zero_or_above_header
        [where h = "\<lparr> hwlm_type = HWLM_ENGINE_FDR, hwlm_data = [1, 2, 3] \<rparr>"
           and noodSize = byte_count and fdrSize = byte_count and sizeof_HWLM = 48, OF a b]
      hwlmSize_zero_or_above_header
        [where h = "\<lparr> hwlm_type = HWLM_ENGINE_NOOD, hwlm_data = [] \<rparr>"
           and noodSize = byte_count and fdrSize = byte_count and sizeof_HWLM = 48, OF c d]
      r v1
    by (simp add: hwlmSize_def example_defs HWLM_ENGINE_NOOD_def HWLM_ENGINE_FDR_def)
qed

text \<open>
  C2. For every blob returned by the build call, if the size function of the blob's
  engine reports the size the payload had at build time, \<^verbatim>\<open>hwlmSize\<close> returns exactly
  the byte count the blob was allocated with: the rounded header size plus the
  payload size. The builders are parameters; what is assumed of them is the
  invariant \<^verbatim>\<open>assert(engSize)\<close> states, a payload that is not null has a non-zero
  size. A build with assertions enforces it, so the hypothesis is only needed for a
  build without them.
\<close>

theorem hwlmSize_roundtrip:
  assumes "hwlmBuild ndebug noodBuildTable fdrBuildTable sizeof_HWLM
             lits make_small cc expected_groups = (events, Inr (Some h))"
    and "hwlm_type (ptr_get h) = HWLM_ENGINE_NOOD \<longrightarrow>
           noodSize (hwlm_data (ptr_get h)) = of_nat (length (hwlm_data (ptr_get h)))"
    and "hwlm_type (ptr_get h) = HWLM_ENGINE_FDR \<longrightarrow>
           fdrSize (hwlm_data (ptr_get h)) = of_nat (length (hwlm_data (ptr_get h)))"
    and "ndebug \<longrightarrow> hwlm_data (ptr_get h) \<noteq> []"
  shows "hwlmSize noodSize fdrSize sizeof_HWLM (ptr_get h) = ptr_size h
         \<and> ptr_size h = ROUNDUP_CL sizeof_HWLM + of_nat (length (hwlm_data (ptr_get h)))
         \<and> events = [if isNoodleable lits cc then Call_noodBuildTable else Call_fdrBuildTable,
                      Alloc_HWLM (ptr_size h)]"
proof -
  from hwlmBuild_returned [OF assms(1)] obtain call engType payload
    where eng: "hwlmBuild_engine noodBuildTable fdrBuildTable lits make_small cc
                  = (call, engType, Some payload)"
      and dbg: "ndebug \<or> payload \<noteq> []"
      and size: "length payload \<le> unat (limitLiteralMatcherSize (grey cc))"
      and ev: "events = [call, Alloc_HWLM (ptr_size h)]"
      and h: "h = \<lparr> ptr_get = \<lparr> hwlm_type = engType, hwlm_data = payload \<rparr>,
                    ptr_size = ROUNDUP_CL sizeof_HWLM + of_nat (length payload) \<rparr>"
    by blast
  have data: "hwlm_data (ptr_get h) = payload" and type: "hwlm_type (ptr_get h) = engType"
    and bytes: "ptr_size h = ROUNDUP_CL sizeof_HWLM + of_nat (length payload)"
    using h by simp_all
  have "payload \<noteq> []"
    using dbg assms(4) data by auto
  then have nz: "(of_nat (length payload) :: size_t) \<noteq> 0"
    using size by (rule payload_size_nonzero(2))
  have tag: "engType = (if isNoodleable lits cc then HWLM_ENGINE_NOOD else HWLM_ENGINE_FDR)"
    using eng by (rule hwlmBuild_engine_tag)
  have call: "call = (if isNoodleable lits cc then Call_noodBuildTable else Call_fdrBuildTable)"
    using hwlmBuild_engine_call [of noodBuildTable fdrBuildTable lits make_small cc] eng by simp
  have "hwlmSize noodSize fdrSize sizeof_HWLM (ptr_get h)
          = of_nat (length payload) + ROUNDUP_CL sizeof_HWLM"
  proof (cases "isNoodleable lits cc")
    case True
    then show ?thesis
      using tag type data assms(2) nz by (simp add: hwlmSize_def Let_def)
  next
    case False
    then show ?thesis
      using tag type data assms(3) nz HWLM_ENGINE_distinct by (simp add: hwlmSize_def Let_def)
  qed
  then show ?thesis
    using bytes data ev call by (simp add: add.commute)
qed

theorem hwlmSize_roundtrip_witness:
  "hwlmSize byte_count byte_count 48
       \<lparr> hwlm_type = HWLM_ENGINE_NOOD, hwlm_data = [9, 8, 7] \<rparr> = 67
   \<and> hwlmBuild True (const_noodBuildTable (Some [9, 8, 7])) (const_fdrBuildTable None) 48
       [example_lit ''abc'' 1] False example_cc 1
     = ([Call_noodBuildTable, Alloc_HWLM 67],
        Inr (Some \<lparr> ptr_get = \<lparr> hwlm_type = HWLM_ENGINE_NOOD, hwlm_data = [9, 8, 7] \<rparr>,
                    ptr_size = 67 \<rparr>))"
proof -
  let ?h = "\<lparr> ptr_get = \<lparr> hwlm_type = HWLM_ENGINE_NOOD, hwlm_data = [9, 8, 7] \<rparr>,
              ptr_size = 67 \<rparr>"
  have built: "hwlmBuild True (const_noodBuildTable (Some [9, 8, 7])) (const_fdrBuildTable None) 48
       [example_lit ''abc'' 1] False example_cc 1
     = ([Call_noodBuildTable, Alloc_HWLM 67], Inr (Some ?h))"
    by (simp add: example_defs build_defs ROUNDUP_CL_def)
  have nood: "hwlm_type (ptr_get ?h) = HWLM_ENGINE_NOOD \<longrightarrow>
           byte_count (hwlm_data (ptr_get ?h)) = of_nat (length (hwlm_data (ptr_get ?h)))"
    by (simp add: byte_count_def)
  have fdr: "hwlm_type (ptr_get ?h) = HWLM_ENGINE_FDR \<longrightarrow>
           byte_count (hwlm_data (ptr_get ?h)) = of_nat (length (hwlm_data (ptr_get ?h)))"
    by (simp add: byte_count_def)
  have nonempty: "True \<longrightarrow> hwlm_data (ptr_get ?h) \<noteq> []"
    by simp
  show ?thesis
    using hwlmSize_roundtrip
        [where noodSize = byte_count and fdrSize = byte_count, OF built nood fdr nonempty] built
    by simp
qed

section \<open>The flood heuristic\<close>

text \<open>
  C5. The flood heuristic returns the all-ones value when the single-literal
  specialist is enabled and the count is at most 1, and 3 in every other case; in
  particular 3 for 48, for 96 and for 200 literals, whatever the wide-mode flag and
  the hardware capability are.
\<close>

theorem hwlmFloodProneSuffixLen_values:
  "hwlmFloodProneSuffixLen n cc
     = (if allowNoodle (grey cc) \<and> n \<le> 1 then NOT 0 else 3)
   \<and> unat (NOT 0 :: size_t) = 2 ^ 64 - 1
   \<and> hwlmFloodProneSuffixLen 48 cc = 3
   \<and> hwlmFloodProneSuffixLen 96 cc = 3
   \<and> hwlmFloodProneSuffixLen 200 cc = 3"
proof -
  have general: "hwlmFloodProneSuffixLen m cc
       = (if allowNoodle (grey cc) \<and> m \<le> 1 then NOT 0 else 3)" for m
    by (simp add: hwlmFloodProneSuffixLen_def Let_def)
  have ones: "unat (NOT 0 :: size_t) = 2 ^ 64 - 1"
    by (simp add: unsigned_minus_1_eq_mask mask_eq_exp_minus_1)
  have "hwlmFloodProneSuffixLen 48 cc = 3"
    by (simp add: general word_le_nat_alt)
  moreover have "hwlmFloodProneSuffixLen 96 cc = 3"
    by (simp add: general word_le_nat_alt)
  moreover have "hwlmFloodProneSuffixLen 200 cc = 3"
    by (simp add: general word_le_nat_alt)
  ultimately show ?thesis
    using general [of n] ones by simp
qed

theorem hwlmFloodProneSuffixLen_values_witness:
  "hwlmFloodProneSuffixLen 1 example_cc = NOT 0
   \<and> hwlmFloodProneSuffixLen 2 example_cc = 3
   \<and> hwlmFloodProneSuffixLen 48 example_cc = 3
   \<and> hwlmFloodProneSuffixLen 96 (example_cc \<lparr> target_info := \<lparr> has_avx2 = True \<rparr> \<rparr>) = 3
   \<and> hwlmFloodProneSuffixLen 200 example_cc = 3"
  using hwlmFloodProneSuffixLen_values [of 1 example_cc]
    hwlmFloodProneSuffixLen_values [of 2 example_cc]
    hwlmFloodProneSuffixLen_values [of 0 "example_cc \<lparr> target_info := \<lparr> has_avx2 = True \<rparr> \<rparr>"]
  by (simp add: example_cc_def word_le_nat_alt)

end
